theory Spec2Isabelle
  imports Main "HOL-Library.Word" "HOL-Library.Log_Nat"
begin

section \<open>Entity model (models)\<close>

text \<open>
  Go's \<open>uint\<close> is taken at its width on 64-bit targets: addition and subtraction wrap
  modulo \<open>2 ^ 64\<close>, comparison is unsigned. Primary keys are only compared and
  incremented, so they are natural numbers.

  Of \<open>models.Item\<close> the columns \<open>id, name, price, description, sold_out, user_id,
  category_id\<close> are kept, of \<open>models.User\<close> the columns \<open>id, username, balance\<close>;
  the timestamps and the preloaded relations play no part in any operation below. The
  item table holds the rows whose \<open>deleted_at\<close> is NULL, the only rows a GORM
  statement on \<open>Item\<close> sees. An item is identified by its primary key.
\<close>

type_synonym uint = "64 word"

record Item =
  ID :: nat
  Name :: string
  Price :: uint
  Description :: string
  SoldOut :: bool
  UserId :: nat
  CategoryId :: nat

record User =
  ID :: nat
  Username :: string
  Balance :: uint

section \<open>Transfer contracts (dto)\<close>

record CreateItemInput =
  Name :: string
  Price :: uint
  Description :: string

text \<open>A Go pointer field is \<open>None\<close> when nil and \<open>Some v\<close> when it points to \<open>v\<close>.\<close>

record UpdateItemInput =
  Name :: "string option"
  Price :: "uint option"
  Description :: "string option"
  SoldOut :: "bool option"

text \<open>\<open>dto.ItemStatistics\<close>, as \<open>GetStatistics\<close> fills it: two \<open>int\<close> counts and a
  \<open>uint\<close> average.\<close>

record ItemStatistics =
  TotalItems :: int
  SoldItems :: int
  AveragePrice :: uint

section \<open>Errors\<close>

text \<open>
  Every error value the code builds or passes on, and the one run-time panic:
  \<^item> \<open>ItemNotFound\<close>: \<open>errors.New("Item not found")\<close> of the item repository;
  \<^item> \<open>UserNotFound\<close>: the same failure of the user repository;
  \<^item> \<open>AlreadySoldOut\<close>: \<open>PurchaseItem\<close>'s error for an item that is sold out;
  \<^item> \<open>InsufficientBalance\<close>: \<open>PurchaseItem\<close>'s error for a balance below the price;
  \<^item> \<open>ImmutablePriceAfterSale\<close>: the error of the hook \<open>Item.BeforeUpdate\<close>;
  \<^item> \<open>DBError\<close>: a non-nil \<open>result.Error\<close> of the storage;
  \<^item> \<open>PanicDivideByZero\<close>: Go's run-time panic on an integer division by zero.
\<close>

datatype error =
    ItemNotFound
  | UserNotFound
  | AlreadySoldOut
  | InsufficientBalance
  | ImmutablePriceAfterSale
  | DBError
  | PanicDivideByZero

section \<open>Storage\<close>

text \<open>
  The database behind \<open>*gorm.DB\<close>: the two tables in row order, the sequence that
  numbers new items, and \<open>faults\<close>, the outcome of the coming GORM calls in order
  (\<open>True\<close>: the call fails with a storage error; an exhausted list: no more failures).
  Every GORM call of the source consumes one entry.
\<close>

record db =
  items :: "Item list"
  users :: "User list"
  item_seq :: nat
  faults :: "bool list"

definition gorm_call :: "db \<Rightarrow> bool \<times> db" where
  "gorm_call d = (case faults d of [] \<Rightarrow> (False, d) | f # fs \<Rightarrow> (f, d\<lparr>faults := fs\<rparr>))"

definition item_row :: "Item list \<Rightarrow> nat \<Rightarrow> Item option" where
  "item_row rows itemId = find (\<lambda>r. Item.ID r = itemId) rows"

definition user_row :: "User list \<Rightarrow> nat \<Rightarrow> User option" where
  "user_row rows userId = find (\<lambda>r. User.ID r = userId) rows"

text \<open>GORM's \<open>Offset\<close> adds an OFFSET clause only for a positive value, its
  \<open>Limit\<close> a LIMIT clause only for a non-negative one (older releases: only for a
  positive one; the two agree on every limit of at least 1). Without ORDER BY the rows
  come in table order.\<close>

definition gorm_offset :: "int \<Rightarrow> 'a list \<Rightarrow> 'a list" where
  "gorm_offset n rows = (if 0 < n then drop (nat n) rows else rows)"

definition gorm_limit :: "int \<Rightarrow> 'a list \<Rightarrow> 'a list" where
  "gorm_limit n rows = (if 0 \<le> n then take (nat n) rows else rows)"

section \<open>Item repository (repositories)\<close>

definition ItemRepository_FindAll :: "db \<Rightarrow> (error + Item list) \<times> db" where
  "ItemRepository_FindAll d =
     (case gorm_call d of
        (True, d1) \<Rightarrow> (Inl DBError, d1)
      | (False, d1) \<Rightarrow> (Inr (items d1), d1))"

definition ItemRepository_FindById :: "db \<Rightarrow> nat \<Rightarrow> (error + Item) \<times> db" where
  "ItemRepository_FindById d itemId =
     (case gorm_call d of
        (True, d1) \<Rightarrow> (Inl DBError, d1)
      | (False, d1) \<Rightarrow>
          (case item_row (items d1) itemId of
             None \<Rightarrow> (Inl ItemNotFound, d1)
           | Some item \<Rightarrow> (Inr item, d1)))"

text \<open>
  \<open>db.Create\<close>: a zero primary key is filled from the sequence, a non-zero one is
  inserted as given; a key that is already taken violates the primary-key constraint.
  Foreign keys are not checked.
\<close>

definition ItemRepository_Create :: "db \<Rightarrow> Item \<Rightarrow> (error + Item) \<times> db" where
  "ItemRepository_Create d newItem =
     (case gorm_call d of
        (True, d1) \<Rightarrow> (Inl DBError, d1)
      | (False, d1) \<Rightarrow>
          (let d2 = (if Item.ID newItem = 0 then d1\<lparr>item_seq := item_seq d1 + 1\<rparr> else d1);
               stored = (if Item.ID newItem = 0 then newItem\<lparr>Item.ID := item_seq d2\<rparr> else newItem)
           in case item_row (items d2) (Item.ID stored) of
                Some _ \<Rightarrow> (Inl DBError, d2)
              | None \<Rightarrow> (Inr stored, d2\<lparr>items := items d2 @ [stored]\<rparr>)))"

text \<open>
  The hook \<open>Item.BeforeUpdate\<close>. \<open>tx.First(&oldItem, i.ID)\<close> is a GORM call whose
  error the hook ignores: when it fails or finds no row, \<open>oldItem\<close> keeps Go's zero
  value, whose \<open>SoldOut\<close> is false.
\<close>

definition zero_Item :: Item where
  "zero_Item = \<lparr>Item.ID = 0, Item.Name = [], Item.Price = 0, Item.Description = [],
     Item.SoldOut = False, UserId = 0, CategoryId = 0\<rparr>"

definition BeforeUpdate :: "db \<Rightarrow> Item \<Rightarrow> (error + unit) \<times> db" where
  "BeforeUpdate d i =
     (case gorm_call d of (failed, d1) \<Rightarrow>
        (let oldItem = (if failed then zero_Item
                        else case item_row (items d1) (Item.ID i) of
                               None \<Rightarrow> zero_Item
                             | Some r \<Rightarrow> r)
         in if Item.SoldOut oldItem \<and> Item.Price oldItem \<noteq> Item.Price i
            then (Inl ImmutablePriceAfterSale, d1)
            else (Inr (), d1)))"

text \<open>
  \<open>db.Model(&updateItem).Updates(map)\<close>: the hook runs first and its error aborts the
  statement; then the four named columns of every row with the model's key are written.
  No row affected is reported as \<open>ItemNotFound\<close>.
\<close>

definition write_columns :: "Item \<Rightarrow> Item \<Rightarrow> Item" where
  "write_columns updateItem r =
     (if Item.ID r = Item.ID updateItem
      then r\<lparr>Item.Name := Item.Name updateItem, Item.Price := Item.Price updateItem,
             Item.Description := Item.Description updateItem,
             Item.SoldOut := Item.SoldOut updateItem\<rparr>
      else r)"

definition ItemRepository_Update :: "db \<Rightarrow> Item \<Rightarrow> (error + Item) \<times> db" where
  "ItemRepository_Update d updateItem =
     (case BeforeUpdate d updateItem of
        (Inl e, d1) \<Rightarrow> (Inl e, d1)
      | (Inr _, d1) \<Rightarrow>
          (case gorm_call d1 of
             (True, d2) \<Rightarrow> (Inl DBError, d2)
           | (False, d2) \<Rightarrow>
               (case item_row (items d2) (Item.ID updateItem) of
                  None \<Rightarrow> (Inl ItemNotFound, d2)
                | Some _ \<Rightarrow>
                    (Inr updateItem, d2\<lparr>items := map (write_columns updateItem) (items d2)\<rparr>))))"

text \<open>
  \<open>FindWithPagination\<close>. \<open>page\<close> and \<open>pageSize\<close> are Go \<open>int\<close>s (64-bit, read with
  \<open>sint\<close>), so \<open>(page - 1) * pageSize\<close> wraps. The error of \<open>Count\<close> is ignored, which
  leaves \<open>total\<close> at zero.
\<close>

definition ItemRepository_FindWithPagination ::
    "db \<Rightarrow> 64 word \<Rightarrow> 64 word \<Rightarrow> (error + Item list \<times> int) \<times> db" where
  "ItemRepository_FindWithPagination d page pageSize =
     (case gorm_call d of (count_failed, d1) \<Rightarrow>
        (let total = (if count_failed then 0 else int (length (items d1)));
             offset = (page - 1) * pageSize
         in case gorm_call d1 of
              (True, d2) \<Rightarrow> (Inl DBError, d2)
            | (False, d2) \<Rightarrow>
                (Inr (gorm_limit (sint pageSize) (gorm_offset (sint offset) (items d2)), total), d2)))"

section \<open>User repository\<close>

text \<open>
  Modelled from the spec: the user repository (\<open>repositories.IUserRepository\<close> and its
  implementation) is not part of the sources. Section 4.2 of the specification gives it the
  contract of the item repository: \<open>findById\<close> fails with NotFound when no user has the
  id, and \<open>update\<close> persists the user (the balance) and fails with NotFound when the id
  does not exist.
\<close>

definition UserRepository_FindById :: "db \<Rightarrow> nat \<Rightarrow> (error + User) \<times> db" where
  "UserRepository_FindById d userId =
     (case gorm_call d of
        (True, d1) \<Rightarrow> (Inl DBError, d1)
      | (False, d1) \<Rightarrow>
          (case user_row (users d1) userId of
             None \<Rightarrow> (Inl UserNotFound, d1)
           | Some user \<Rightarrow> (Inr user, d1)))"

text \<open>
  Modelled from the spec: \<open>update\<close> of the user repository, the only path that changes
  a balance. As \<open>Update\<close> of the item repository does, it reports a failed call as
  the storage error and no row affected as NotFound, and otherwise writes the user.
\<close>

definition UserRepository_Update :: "db \<Rightarrow> User \<Rightarrow> (error + User) \<times> db" where
  "UserRepository_Update d updateUser =
     (case gorm_call d of
        (True, d1) \<Rightarrow> (Inl DBError, d1)
      | (False, d1) \<Rightarrow>
          (case user_row (users d1) (User.ID updateUser) of
             None \<Rightarrow> (Inl UserNotFound, d1)
           | Some _ \<Rightarrow>
               (Inr updateUser,
                d1\<lparr>users := map (\<lambda>r. if User.ID r = User.ID updateUser then updateUser else r)
                                (users d1)\<rparr>)))"

section \<open>Item service (services)\<close>

text \<open>
  \<open>calculatePrice\<close> is \<open>uint(float64(basePrice) * taxRate)\<close> with \<open>taxRate = 1.10\<close>.
  The arithmetic is IEEE 754 binary64, computed here exactly on natural numbers:
  \<open>round53\<close> rounds to 53 significant bits, ties to even; the double nearest to 1.10 is
  \<open>4953959590107546 / 2 ^ 52\<close>; the conversion to \<open>uint\<close> truncates. Go leaves the
  conversion of a value of \<open>2 ^ 64\<close> or more to the implementation; the model wraps it.
\<close>

definition round53 :: "nat \<Rightarrow> nat" where
  "round53 n =
     (let b = floorlog 2 n in
      if b \<le> 53 then n
      else (let sh = b - 53; q = n div 2 ^ sh; r = n mod 2 ^ sh; half = 2 ^ (sh - 1)
            in (if half < r \<or> (r = half \<and> q mod 2 = 1) then q + 1 else q) * 2 ^ sh))"

definition taxRate_mantissa :: nat where
  "taxRate_mantissa = 4953959590107546"

definition calculatePrice :: "uint \<Rightarrow> uint" where
  "calculatePrice basePrice =
     word_of_nat (round53 (round53 (unat basePrice) * taxRate_mantissa) div 2 ^ 52)"

definition ItemService_Create :: "db \<Rightarrow> CreateItemInput \<Rightarrow> (error + Item) \<times> db" where
  "ItemService_Create d createItemInput =
     (let finalPrice = calculatePrice (CreateItemInput.Price createItemInput);
          newItem = \<lparr>Item.ID = 0, Item.Name = CreateItemInput.Name createItemInput,
                     Item.Price = finalPrice,
                     Item.Description = CreateItemInput.Description createItemInput,
                     Item.SoldOut = False, UserId = 0, CategoryId = 0\<rparr>
      in ItemRepository_Create d newItem)"

definition PurchaseItem :: "db \<Rightarrow> nat \<Rightarrow> nat \<Rightarrow> (error + unit) \<times> db" where
  "PurchaseItem d itemId userId =
     (case ItemRepository_FindById d itemId of
        (Inl e, d1) \<Rightarrow> (Inl e, d1)
      | (Inr item, d1) \<Rightarrow>
          if Item.SoldOut item then (Inl AlreadySoldOut, d1)
          else
            (case UserRepository_FindById d1 userId of
               (Inl e, d2) \<Rightarrow> (Inl e, d2)
             | (Inr user, d2) \<Rightarrow>
                 if Balance user < Item.Price item then (Inl InsufficientBalance, d2)
                 else
                   (case ItemRepository_Update d2 (item\<lparr>Item.SoldOut := True\<rparr>) of
                      (Inl e, d3) \<Rightarrow> (Inl e, d3)
                    | (Inr _, d3) \<Rightarrow>
                        (case UserRepository_Update d3
                                (user\<lparr>Balance := Balance user - Item.Price item\<rparr>) of
                           (Inl e, d4) \<Rightarrow> (Inl e, d4)
                         | (Inr _, d4) \<Rightarrow> (Inr (), d4)))))"

definition apply_input :: "UpdateItemInput \<Rightarrow> Item \<Rightarrow> Item" where
  "apply_input updateInput targetItem =
     (let t1 = (case UpdateItemInput.Name updateInput of
                  None \<Rightarrow> targetItem
                | Some n \<Rightarrow> targetItem\<lparr>Item.Name := n\<rparr>);
          t2 = (case UpdateItemInput.Price updateInput of
                  None \<Rightarrow> t1
                | Some p \<Rightarrow> t1\<lparr>Item.Price := calculatePrice p\<rparr>);
          t3 = (case UpdateItemInput.Description updateInput of
                  None \<Rightarrow> t2
                | Some x \<Rightarrow> t2\<lparr>Item.Description := x\<rparr>)
      in t3)"

definition ItemService_Update :: "db \<Rightarrow> nat \<Rightarrow> UpdateItemInput \<Rightarrow> (error + Item) \<times> db" where
  "ItemService_Update d itemId updateInput =
     (case ItemRepository_FindById d itemId of
        (Inl e, d1) \<Rightarrow> (Inl e, d1)
      | (Inr targetItem, d1) \<Rightarrow> ItemRepository_Update d1 (apply_input updateInput targetItem))"

text \<open>The loop of \<open>GetStatistics\<close>: \<open>totalPrice\<close> is a \<open>uint\<close> and wraps, \<open>soldCount\<close>
  is an \<open>int\<close>.\<close>

fun statistics_loop :: "Item list \<Rightarrow> uint \<Rightarrow> int \<Rightarrow> uint \<times> int" where
  "statistics_loop [] totalPrice soldCount = (totalPrice, soldCount)"
| "statistics_loop (item # rest) totalPrice soldCount =
     statistics_loop rest (totalPrice + Item.Price item)
       (if Item.SoldOut item then soldCount + 1 else soldCount)"

definition GetStatistics :: "db \<Rightarrow> (error + ItemStatistics) \<times> db" where
  "GetStatistics d =
     (case ItemRepository_FindAll d of
        (Inl e, d1) \<Rightarrow> (Inl e, d1)
      | (Inr rows, d1) \<Rightarrow>
          (case statistics_loop rows 0 0 of (totalPrice, soldCount) \<Rightarrow>
             if length rows = 0 then (Inl PanicDivideByZero, d1)
             else (Inr \<lparr>TotalItems = int (length rows), SoldItems = soldCount,
                         AveragePrice = totalPrice div word_of_nat (length rows)\<rparr>, d1)))"

section \<open>Sequences of core operations\<close>

datatype core_op =
    OpCreate CreateItemInput
  | OpUpdate nat UpdateItemInput
  | OpPurchase nat nat

fun run_op :: "db \<Rightarrow> core_op \<Rightarrow> db" where
  "run_op d (OpCreate createItemInput) = snd (ItemService_Create d createItemInput)"
| "run_op d (OpUpdate itemId updateInput) = snd (ItemService_Update d itemId updateInput)"
| "run_op d (OpPurchase itemId userId) = snd (PurchaseItem d itemId userId)"

fun run_ops :: "db \<Rightarrow> core_op list \<Rightarrow> db" where
  "run_ops d [] = d"
| "run_ops d (x # xs) = run_ops (run_op d x) xs"

definition item_sold :: "db \<Rightarrow> nat \<Rightarrow> bool" where
  "item_sold d itemId =
     (case item_row (items d) itemId of None \<Rightarrow> False | Some r \<Rightarrow> Item.SoldOut r)"

section \<open>Overlapping purchases\<close>

text \<open>
  \<open>PurchaseItem\<close> takes no lock and opens no transaction, so between two of its
  repository calls the calls of another request can run. A running call of
  \<open>PurchaseItem\<close> is its two arguments and the place it has reached, with the local
  variables \<open>item\<close> and \<open>user\<close> it holds there; each step is one repository call,
  which the database runs as a whole.
\<close>

datatype purchase_pc =
    LoadItem
  | LoadUser Item
  | WriteItem Item User
  | WriteUser Item User
  | Done "error + unit"

record purchase_call =
  call_itemId :: nat
  call_userId :: nat
  call_pc :: purchase_pc

definition purchase_start :: "nat \<Rightarrow> nat \<Rightarrow> purchase_call" where
  "purchase_start itemId userId =
     \<lparr>call_itemId = itemId, call_userId = userId, call_pc = LoadItem\<rparr>"

definition purchase_step :: "db \<Rightarrow> purchase_call \<Rightarrow> purchase_call \<times> db" where
  "purchase_step d c =
     (case call_pc c of
        LoadItem \<Rightarrow>
          (case ItemRepository_FindById d (call_itemId c) of
             (Inl e, d1) \<Rightarrow> (c\<lparr>call_pc := Done (Inl e)\<rparr>, d1)
           | (Inr item, d1) \<Rightarrow>
               if Item.SoldOut item then (c\<lparr>call_pc := Done (Inl AlreadySoldOut)\<rparr>, d1)
               else (c\<lparr>call_pc := LoadUser item\<rparr>, d1))
      | LoadUser item \<Rightarrow>
          (case UserRepository_FindById d (call_userId c) of
             (Inl e, d2) \<Rightarrow> (c\<lparr>call_pc := Done (Inl e)\<rparr>, d2)
           | (Inr user, d2) \<Rightarrow>
               if Balance user < Item.Price item
               then (c\<lparr>call_pc := Done (Inl InsufficientBalance)\<rparr>, d2)
               else (c\<lparr>call_pc := WriteItem item user\<rparr>, d2))
      | WriteItem item user \<Rightarrow>
          (case ItemRepository_Update d (item\<lparr>Item.SoldOut := True\<rparr>) of
             (Inl e, d3) \<Rightarrow> (c\<lparr>call_pc := Done (Inl e)\<rparr>, d3)
           | (Inr _, d3) \<Rightarrow> (c\<lparr>call_pc := WriteUser item user\<rparr>, d3))
      | WriteUser item user \<Rightarrow>
          (case UserRepository_Update d (user\<lparr>Balance := Balance user - Item.Price item\<rparr>) of
             (Inl e, d4) \<Rightarrow> (c\<lparr>call_pc := Done (Inl e)\<rparr>, d4)
           | (Inr _, d4) \<Rightarrow> (c\<lparr>call_pc := Done (Inr ())\<rparr>, d4))
      | Done r \<Rightarrow> (c, d))"

text \<open>A schedule names, step by step, the call that runs its next repository call.\<close>

fun run_schedule :: "db \<Rightarrow> purchase_call list \<Rightarrow> nat list \<Rightarrow> db \<times> purchase_call list" where
  "run_schedule d calls [] = (d, calls)"
| "run_schedule d calls (k # ks) =
     (if k < length calls
      then (case purchase_step d (calls ! k) of
              (c', d') \<Rightarrow> run_schedule d' (calls[k := c']) ks)
      else run_schedule d calls ks)"

section \<open>Example data\<close>

definition mk_item :: "nat \<Rightarrow> string \<Rightarrow> uint \<Rightarrow> bool \<Rightarrow> Item" where
  "mk_item i n p s = \<lparr>Item.ID = i, Item.Name = n, Item.Price = p, Item.Description = [],
     Item.SoldOut = s, UserId = 1, CategoryId = 1\<rparr>"

definition mk_user :: "nat \<Rightarrow> uint \<Rightarrow> User" where
  "mk_user k b = \<lparr>User.ID = k, Username = ''u'', Balance = b\<rparr>"

definition mk_db :: "Item list \<Rightarrow> User list \<Rightarrow> bool list \<Rightarrow> db" where
  "mk_db rows us fs = \<lparr>items = rows, users = us, item_seq = length rows, faults = fs\<rparr>"

text \<open>Twenty-five items, numbered 1 to 25.\<close>

definition db25 :: db where
  "db25 = mk_db (map (\<lambda>k. mk_item k ''A'' 100 False) [1..<26]) [] []"

section \<open>The storage primitives\<close>

lemma gorm_call_no_faults: "faults d = [] \<Longrightarrow> gorm_call d = (False, d)"
  by (simp add: gorm_call_def)

lemma gorm_call_tables:
  "gorm_call d = (b, d1) \<Longrightarrow> items d1 = items d \<and> users d1 = users d \<and> item_seq d1 = item_seq d"
  by (auto simp: gorm_call_def split: list.splits)

lemma item_row_Some_ID: "item_row rows j = Some r \<Longrightarrow> Item.ID r = j"
  by (auto simp: item_row_def find_Some_iff)

lemma user_row_Some_ID: "user_row rows j = Some r \<Longrightarrow> User.ID r = j"
  by (auto simp: user_row_def find_Some_iff)

lemma write_columns_ID: "Item.ID (write_columns x r) = Item.ID r"
  by (simp add: write_columns_def)

lemma item_row_map_write:
  "item_row (map (write_columns x) rows) j = map_option (write_columns x) (item_row rows j)"
  by (induction rows) (auto simp: item_row_def write_columns_ID)

lemma user_row_map_update:
  "user_row (map (\<lambda>r. if User.ID r = User.ID u then u else r) rows) k =
     (if k = User.ID u then map_option (\<lambda>_. u) (user_row rows k) else user_row rows k)"
  by (induction rows) (auto simp: user_row_def)

lemma item_row_append:
  "item_row (rows @ [s]) j =
     (case item_row rows j of Some r \<Rightarrow> Some r | None \<Rightarrow> if Item.ID s = j then Some s else None)"
  by (induction rows) (auto simp: item_row_def)

lemma FindById_no_faults:
  "faults d = [] \<Longrightarrow> ItemRepository_FindById d j =
     (case item_row (items d) j of None \<Rightarrow> (Inl ItemNotFound, d) | Some r \<Rightarrow> (Inr r, d))"
  by (simp add: ItemRepository_FindById_def gorm_call_no_faults)

lemma User_FindById_no_faults:
  "faults d = [] \<Longrightarrow> UserRepository_FindById d j =
     (case user_row (users d) j of None \<Rightarrow> (Inl UserNotFound, d) | Some r \<Rightarrow> (Inr r, d))"
  by (simp add: UserRepository_FindById_def gorm_call_no_faults)

lemma BeforeUpdate_no_faults:
  "faults d = [] \<Longrightarrow> BeforeUpdate d x =
     (case item_row (items d) (Item.ID x) of
        None \<Rightarrow> (Inr (), d)
      | Some r \<Rightarrow> if Item.SoldOut r \<and> Item.Price r \<noteq> Item.Price x
                  then (Inl ImmutablePriceAfterSale, d) else (Inr (), d))"
  by (simp add: BeforeUpdate_def gorm_call_no_faults zero_Item_def split: option.splits)

lemma Update_no_faults:
  "faults d = [] \<Longrightarrow> ItemRepository_Update d x =
     (case item_row (items d) (Item.ID x) of
        None \<Rightarrow> (Inl ItemNotFound, d)
      | Some r \<Rightarrow> if Item.SoldOut r \<and> Item.Price r \<noteq> Item.Price x
                  then (Inl ImmutablePriceAfterSale, d)
                  else (Inr x, d\<lparr>items := map (write_columns x) (items d)\<rparr>))"
  by (simp add: ItemRepository_Update_def BeforeUpdate_no_faults gorm_call_no_faults
           split: option.splits)

lemma User_Update_no_faults:
  "faults d = [] \<Longrightarrow> UserRepository_Update d u =
     (case user_row (users d) (User.ID u) of
        None \<Rightarrow> (Inl UserNotFound, d)
      | Some _ \<Rightarrow> (Inr u, d\<lparr>users := map (\<lambda>r. if User.ID r = User.ID u then u else r) (users d)\<rparr>))"
  by (simp add: UserRepository_Update_def gorm_call_no_faults split: option.splits)

lemma PurchaseItem_no_faults:
  "faults d = [] \<Longrightarrow> PurchaseItem d itemId userId =
     (case item_row (items d) itemId of
        None \<Rightarrow> (Inl ItemNotFound, d)
      | Some i \<Rightarrow>
          if Item.SoldOut i then (Inl AlreadySoldOut, d)
          else (case user_row (users d) userId of
                  None \<Rightarrow> (Inl UserNotFound, d)
                | Some u \<Rightarrow>
                    if Balance u < Item.Price i then (Inl InsufficientBalance, d)
                    else (Inr (), d\<lparr>items := map (write_columns (i\<lparr>Item.SoldOut := True\<rparr>)) (items d),
                                    users := map (\<lambda>r. if User.ID r = userId
                                       then u\<lparr>Balance := Balance u - Item.Price i\<rparr> else r) (users d)\<rparr>)))"
  by (auto simp: PurchaseItem_def FindById_no_faults User_FindById_no_faults Update_no_faults
        User_Update_no_faults item_row_Some_ID user_row_Some_ID
        split: option.splits)

section \<open>The price calculation\<close>





section \<open>Purchase\<close>

lemma write_columns_other: "Item.ID r \<noteq> Item.ID x \<Longrightarrow> write_columns x r = r"
  by (simp add: write_columns_def)

lemma item_row_map_write_other:
  "j \<noteq> Item.ID x \<Longrightarrow> item_row (map (write_columns x) rows) j = item_row rows j"
  by (cases "item_row rows j")
     (auto simp: item_row_map_write write_columns_other dest: item_row_Some_ID)

lemma PurchaseItem_success:
  assumes "faults d = []" and "item_row (items d) itemId = Some i" and "\<not> Item.SoldOut i"
    and "user_row (users d) userId = Some u" and "\<not> Balance u < Item.Price i"
  shows "fst (PurchaseItem d itemId userId) = Inr ()"
    and "faults (snd (PurchaseItem d itemId userId)) = []"
    and "item_row (items (snd (PurchaseItem d itemId userId))) j =
           (if j = itemId then Some (i\<lparr>Item.SoldOut := True\<rparr>) else item_row (items d) j)"
    and "user_row (users (snd (PurchaseItem d itemId userId))) k =
           (if k = userId then Some (u\<lparr>Balance := Balance u - Item.Price i\<rparr>)
            else user_row (users d) k)"
proof -
  have i: "Item.ID i = itemId" and u: "User.ID u = userId"
    using assms by (auto dest: item_row_Some_ID user_row_Some_ID)
  have P: "PurchaseItem d itemId userId =
      (Inr (), d\<lparr>items := map (write_columns (i\<lparr>Item.SoldOut := True\<rparr>)) (items d),
                 users := map (\<lambda>r. if User.ID r = userId
                            then u\<lparr>Balance := Balance u - Item.Price i\<rparr> else r) (users d)\<rparr>)"
    using assms by (simp add: PurchaseItem_no_faults)
  show "fst (PurchaseItem d itemId userId) = Inr ()" by (simp add: P)
  show "faults (snd (PurchaseItem d itemId userId)) = []" using assms(1) by (simp add: P)
  show "item_row (items (snd (PurchaseItem d itemId userId))) j =
           (if j = itemId then Some (i\<lparr>Item.SoldOut := True\<rparr>) else item_row (items d) j)"
  proof (cases "j = itemId")
    case True
    then show ?thesis
      using assms(2) i by (simp add: P item_row_map_write write_columns_def)
  next
    case False
    then show ?thesis
      using i by (simp add: P item_row_map_write_other)
  qed
  show "user_row (users (snd (PurchaseItem d itemId userId))) k =
           (if k = userId then Some (u\<lparr>Balance := Balance u - Item.Price i\<rparr>)
            else user_row (users d) k)"
    using assms(4) u
    using user_row_map_update [of "u\<lparr>Balance := Balance u - Item.Price i\<rparr>" "users d" k]
    by (simp add: P)
qed

text \<open>
  Claim C1. With the storage answering every call, \<open>PurchaseItem\<close> on an item id that
  is not stored returns the repository's \<open>ItemNotFound\<close>; on a stored item that is sold
  out it returns \<open>AlreadySoldOut\<close>; on an unsold item and a buyer id that is not stored
  it returns the repository's \<open>UserNotFound\<close>; on an unsold item and a stored buyer
  whose balance is below the price it returns \<open>InsufficientBalance\<close>; in each of these
  cases the database is left as it was. Otherwise it succeeds: a later read of the item
  gives the same item with \<open>SoldOut\<close> true, a later read of the buyer gives the same
  user with the balance lowered by exactly the price (no wrap-around), and every other
  item and user is unchanged.
\<close>

theorem PurchaseItem_rules:
  assumes "faults d = []"
  shows
    "(item_row (items d) itemId = None \<longrightarrow>
        PurchaseItem d itemId userId = (Inl ItemNotFound, d)) \<and>
     (item_row (items d) itemId = Some i \<and> Item.SoldOut i \<longrightarrow>
        PurchaseItem d itemId userId = (Inl AlreadySoldOut, d)) \<and>
     (item_row (items d) itemId = Some i \<and> \<not> Item.SoldOut i \<and>
      user_row (users d) userId = None \<longrightarrow>
        PurchaseItem d itemId userId = (Inl UserNotFound, d)) \<and>
     (item_row (items d) itemId = Some i \<and> \<not> Item.SoldOut i \<and>
      user_row (users d) userId = Some u \<and> Balance u < Item.Price i \<longrightarrow>
        PurchaseItem d itemId userId = (Inl InsufficientBalance, d)) \<and>
     (item_row (items d) itemId = Some i \<and> \<not> Item.SoldOut i \<and>
      user_row (users d) userId = Some u \<and> \<not> Balance u < Item.Price i \<longrightarrow>
        (case PurchaseItem d itemId userId of (res, d') \<Rightarrow>
           res = Inr () \<and>
           ItemRepository_FindById d' itemId = (Inr (i\<lparr>Item.SoldOut := True\<rparr>), d') \<and>
           UserRepository_FindById d' userId =
             (Inr (u\<lparr>Balance := Balance u - Item.Price i\<rparr>), d') \<and>
           unat (Balance u - Item.Price i) + unat (Item.Price i) = unat (Balance u) \<and>
           (\<forall>j. j \<noteq> itemId \<longrightarrow> item_row (items d') j = item_row (items d) j) \<and>
           (\<forall>k. k \<noteq> userId \<longrightarrow> user_row (users d') k = user_row (users d) k)))"
proof (intro conjI impI)
  assume "item_row (items d) itemId = None"
  then show "PurchaseItem d itemId userId = (Inl ItemNotFound, d)"
    using assms by (simp add: PurchaseItem_no_faults)
next
  assume "item_row (items d) itemId = Some i \<and> Item.SoldOut i"
  then show "PurchaseItem d itemId userId = (Inl AlreadySoldOut, d)"
    using assms by (simp add: PurchaseItem_no_faults)
next
  assume "item_row (items d) itemId = Some i \<and> \<not> Item.SoldOut i \<and>
      user_row (users d) userId = None"
  then show "PurchaseItem d itemId userId = (Inl UserNotFound, d)"
    using assms by (simp add: PurchaseItem_no_faults)
next
  assume "item_row (items d) itemId = Some i \<and> \<not> Item.SoldOut i \<and>
      user_row (users d) userId = Some u \<and> Balance u < Item.Price i"
  then show "PurchaseItem d itemId userId = (Inl InsufficientBalance, d)"
    using assms by (simp add: PurchaseItem_no_faults)
next
  assume h: "item_row (items d) itemId = Some i \<and> \<not> Item.SoldOut i \<and>
      user_row (users d) userId = Some u \<and> \<not> Balance u < Item.Price i"
  obtain res d' where r: "PurchaseItem d itemId userId = (res, d')"
    by (cases "PurchaseItem d itemId userId")
  note s = PurchaseItem_success [OF assms, of itemId i userId u, unfolded r fst_conv snd_conv]
  have le: "Item.Price i \<le> Balance u" using h by (auto simp: not_less)
  have "unat (Balance u - Item.Price i) = unat (Balance u) - unat (Item.Price i)"
    using le by (rule unat_sub)
  moreover have "unat (Item.Price i) \<le> unat (Balance u)"
    using le by (simp add: word_le_nat_alt)
  ultimately have sub: "unat (Balance u - Item.Price i) + unat (Item.Price i) = unat (Balance u)"
    by simp
  show "case PurchaseItem d itemId userId of (res, d') \<Rightarrow>
           res = Inr () \<and>
           ItemRepository_FindById d' itemId = (Inr (i\<lparr>Item.SoldOut := True\<rparr>), d') \<and>
           UserRepository_FindById d' userId =
             (Inr (u\<lparr>Balance := Balance u - Item.Price i\<rparr>), d') \<and>
           unat (Balance u - Item.Price i) + unat (Item.Price i) = unat (Balance u) \<and>
           (\<forall>j. j \<noteq> itemId \<longrightarrow> item_row (items d') j = item_row (items d) j) \<and>
           (\<forall>k. k \<noteq> userId \<longrightarrow> user_row (users d') k = user_row (users d) k)"
    using h s sub by (simp add: r FindById_no_faults User_FindById_no_faults)
qed


theorem PurchaseItem_rules_witness:
  "PurchaseItem (mk_db [mk_item 1 ''A'' 500 False] [mk_user 1 500] []) 2 1 =
     (Inl ItemNotFound, mk_db [mk_item 1 ''A'' 500 False] [mk_user 1 500] []) \<and>
   PurchaseItem (mk_db [mk_item 1 ''A'' 500 True] [mk_user 1 0, mk_user 2 900] []) 1 2 =
     (Inl AlreadySoldOut, mk_db [mk_item 1 ''A'' 500 True] [mk_user 1 0, mk_user 2 900] []) \<and>
   PurchaseItem (mk_db [mk_item 1 ''A'' 500 False] [mk_user 1 500] []) 1 7 =
     (Inl UserNotFound, mk_db [mk_item 1 ''A'' 500 False] [mk_user 1 500] []) \<and>
   PurchaseItem (mk_db [mk_item 1 ''A'' 500 False] [mk_user 1 100] []) 1 1 =
     (Inl InsufficientBalance, mk_db [mk_item 1 ''A'' 500 False] [mk_user 1 100] []) \<and>
   (case PurchaseItem (mk_db [mk_item 1 ''A'' 500 False] [mk_user 1 500] []) 1 1 of
      (res, d') \<Rightarrow>
        res = Inr () \<and>
        ItemRepository_FindById d' 1 = (Inr (mk_item 1 ''A'' 500 True), d') \<and>
        UserRepository_FindById d' 1 = (Inr (mk_user 1 0), d'))"
  using
    PurchaseItem_rules [where d = "mk_db [mk_item 1 ''A'' 500 False] [mk_user 1 500] []" and itemId = 2
      and i = "mk_item 1 ''A'' 500 False" and userId = 1 and u = "mk_user 1 500"]
    PurchaseItem_rules [where d = "mk_db [mk_item 1 ''A'' 500 True] [mk_user 1 0, mk_user 2 900] []" and itemId = 1
      and i = "mk_item 1 ''A'' 500 True" and userId = 2 and u = "mk_user 2 900"]
    PurchaseItem_rules [where d = "mk_db [mk_item 1 ''A'' 500 False] [mk_user 1 500] []" and itemId = 1
      and i = "mk_item 1 ''A'' 500 False" and userId = 7 and u = "mk_user 1 500"]
    PurchaseItem_rules [where d = "mk_db [mk_item 1 ''A'' 500 False] [mk_user 1 100] []" and itemId = 1
      and i = "mk_item 1 ''A'' 500 False" and userId = 1 and u = "mk_user 1 100"]
    PurchaseItem_rules [where d = "mk_db [mk_item 1 ''A'' 500 False] [mk_user 1 500] []" and itemId = 1
      and i = "mk_item 1 ''A'' 500 False" and userId = 1 and u = "mk_user 1 500"]
  by (simp add: mk_db_def mk_item_def mk_user_def item_row_def user_row_def split: prod.splits)

text \<open>
  Claim C2. \<open>PurchaseItem\<close> does not undo its first write when the second one
  fails: for an unsold item 1 of price 500 and a buyer 1 with balance 500, when the storage
  fails the fifth call (the update of the buyer), the purchase returns the storage error
  and leaves item 1 sold out while the balance is still 500. The rollback is a comment in
  the source.
\<close>

theorem PurchaseItem_second_write_fails:
  "PurchaseItem (mk_db [mk_item 1 ''A'' 500 False] [mk_user 1 500]
       [False, False, False, False, True]) 1 1 =
     (Inl DBError, mk_db [mk_item 1 ''A'' 500 True] [mk_user 1 500] [])"
  by (simp add: PurchaseItem_def ItemRepository_FindById_def UserRepository_FindById_def
        ItemRepository_Update_def BeforeUpdate_def UserRepository_Update_def gorm_call_def
        item_row_def user_row_def write_columns_def mk_db_def mk_item_def mk_user_def)

section \<open>Statistics\<close>

lemma statistics_loop_eq:
  "statistics_loop rows t s =
     (t + sum_list (map Item.Price rows), s + int (length (filter Item.SoldOut rows)))"
  by (induction rows arbitrary: t s) (simp_all add: add.assoc)

lemma GetStatistics_nonempty:
  assumes "faults d = []" and "items d \<noteq> []"
  shows "GetStatistics d =
     (Inr \<lparr>TotalItems = int (length (items d)),
           SoldItems = int (length (filter Item.SoldOut (items d))),
           AveragePrice = sum_list (map Item.Price (items d)) div word_of_nat (length (items d))\<rparr>, d)"
  using assms
  by (simp add: GetStatistics_def ItemRepository_FindAll_def gorm_call_no_faults
        statistics_loop_eq)

text \<open>
  Claim C4. On an empty item table \<open>GetStatistics\<close> divides by
  \<open>uint(len(*items))\<close>, which is zero: Go panics with an integer division by zero
  and no statistics (no average of 0) are returned.
\<close>

theorem GetStatistics_no_items:
  "GetStatistics (mk_db [] [mk_user 1 500] []) = (Inl PanicDivideByZero, mk_db [] [mk_user 1 500] [])"
  by (simp add: GetStatistics_def ItemRepository_FindAll_def gorm_call_def mk_db_def)

section \<open>Pagination\<close>

lemma sint_offset:
  fixes page pageSize :: "64 word"
  assumes "1 \<le> sint page" and "1 \<le> sint pageSize"
    and "(sint page - 1) * sint pageSize < 2 ^ 63"
  shows "sint ((page - 1) * pageSize) = (sint page - 1) * sint pageSize"
proof -
  have "sint page < 2 ^ 63"
    using sint_lt [of page] by simp
  have p1: "sint (page - 1) = sint page - 1"
    using assms(1) \<open>sint page < 2 ^ 63\<close>
    by (simp add: sint_word_ariths signed_take_bit_int_eq_self)
  have "0 \<le> (sint page - 1) * sint pageSize"
    using assms(1,2) by simp
  moreover have "sint ((page - 1) * pageSize) =
      signed_take_bit (LENGTH(64) - 1) (sint (page - 1) * sint pageSize)"
    by (rule sint_word_mult)
  ultimately show ?thesis
    using assms(3) by (simp add: p1 signed_take_bit_int_eq_self)
qed

text \<open>
  Claim C7, as the code has it. With the storage answering both calls, a page number of
  at least 1, a page size of at least 1 and an offset \<open>(page - 1) * pageSize\<close> below
  \<open>2 ^ 63\<close> (it does not overflow Go's \<open>int\<close>), \<open>FindWithPagination\<close> returns the
  rows from offset \<open>(page - 1) * pageSize\<close> on, at most \<open>pageSize\<close> of them, together
  with the number of all rows; a page beyond the data is the empty list with the same
  count, not an error.
\<close>

theorem FindWithPagination_page:
  assumes "faults d = []" and "1 \<le> sint page" and "1 \<le> sint pageSize"
    and "(sint page - 1) * sint pageSize < 2 ^ 63"
  shows
    "ItemRepository_FindWithPagination d page pageSize =
       (Inr (take (nat (sint pageSize)) (drop (nat ((sint page - 1) * sint pageSize)) (items d)),
             int (length (items d))), d) \<and>
     length (take (nat (sint pageSize)) (drop (nat ((sint page - 1) * sint pageSize)) (items d)))
       \<le> nat (sint pageSize) \<and>
     (int (length (items d)) \<le> (sint page - 1) * sint pageSize \<longrightarrow>
        take (nat (sint pageSize)) (drop (nat ((sint page - 1) * sint pageSize)) (items d)) = [])"
proof -
  have off: "sint ((page - 1) * pageSize) = (sint page - 1) * sint pageSize"
    using assms(2-4) by (rule sint_offset)
  have "gorm_offset ((sint page - 1) * sint pageSize) (items d) =
      drop (nat ((sint page - 1) * sint pageSize)) (items d)"
    by (simp add: gorm_offset_def)
  moreover have "gorm_limit (sint pageSize) xs = take (nat (sint pageSize)) xs" for xs :: "Item list"
    using assms(3) by (simp add: gorm_limit_def)
  ultimately show ?thesis
    using assms(1)
    by (simp add: ItemRepository_FindWithPagination_def gorm_call_no_faults off)
qed

text \<open>With 25 items and a page size of 10, page 3 holds the items 21 to 25 and page 4 is
  empty; the count is 25 both times.\<close>

theorem FindWithPagination_page_witness:
  "ItemRepository_FindWithPagination db25 3 10 =
     (Inr (map (\<lambda>k. mk_item k ''A'' 100 False) [21..<26], 25), db25) \<and>
   length (map (\<lambda>k. mk_item k ''A'' 100 False) [21..<26]) = 5 \<and>
   ItemRepository_FindWithPagination db25 4 10 = (Inr ([], 25), db25)"
  using FindWithPagination_page [of db25 3 10] FindWithPagination_page [of db25 4 10]
  by (simp add: db25_def mk_db_def drop_map)

text \<open>
  Claim C7 as stated fails: with 25 items, page 184467440737095517 and a page size of
  100, the offset \<open>(page - 1) * pageSize\<close> wraps to -16, which GORM leaves out of the
  query, and all 25 items come back for a page far beyond the data.
\<close>

theorem FindWithPagination_offset_wraps:
  "ItemRepository_FindWithPagination db25 184467440737095517 100 =
     (Inr (items db25, 25), db25) \<and>
   length (items db25) = 25"
  by (simp add: ItemRepository_FindWithPagination_def gorm_call_def gorm_offset_def
        gorm_limit_def db25_def mk_db_def)

text \<open>The error of \<open>Count\<close> is not checked: when that call fails and \<open>Find\<close> succeeds,
  the page is returned with a count of 0 and no error.\<close>

lemma FindWithPagination_Count_fails:
  "ItemRepository_FindWithPagination
      (mk_db [mk_item 1 ''A'' 100 False] [] [True]) 1 10 =
     (Inr ([mk_item 1 ''A'' 100 False], 0), mk_db [mk_item 1 ''A'' 100 False] [] [])"
  by (simp add: ItemRepository_FindWithPagination_def gorm_call_def gorm_offset_def
        gorm_limit_def mk_db_def)

section \<open>Creation\<close>

lemma calculatePrice_100: "calculatePrice 100 = 110"
  by (simp add: calculatePrice_def round53_def compute_floorlog Let_def taxRate_mantissa_def)

lemma calculatePrice_150: "calculatePrice 150 = 165"
  by (simp add: calculatePrice_def round53_def compute_floorlog Let_def taxRate_mantissa_def)

lemma calculatePrice_200: "calculatePrice 200 = 220"
  by (simp add: calculatePrice_def round53_def compute_floorlog Let_def taxRate_mantissa_def)






section \<open>Partial update\<close>

lemma apply_input_fields:
  "apply_input updateInput t =
     t\<lparr>Item.Name := (case UpdateItemInput.Name updateInput of None \<Rightarrow> Item.Name t | Some n \<Rightarrow> n),
       Item.Price := (case UpdateItemInput.Price updateInput of
                        None \<Rightarrow> Item.Price t | Some p \<Rightarrow> calculatePrice p),
       Item.Description := (case UpdateItemInput.Description updateInput of
                              None \<Rightarrow> Item.Description t | Some x \<Rightarrow> x)\<rparr>"
  by (simp add: apply_input_def split: option.splits)

lemma apply_input_ID: "Item.ID (apply_input updateInput t) = Item.ID t"
  by (simp add: apply_input_fields)

lemma apply_input_SoldOut: "Item.SoldOut (apply_input updateInput t) = Item.SoldOut t"
  by (simp add: apply_input_fields)

lemma Update_service_no_faults:
  assumes "faults d = []" and "item_row (items d) itemId = Some t"
  shows "ItemService_Update d itemId updateInput =
     (if Item.SoldOut t \<and> Item.Price t \<noteq> Item.Price (apply_input updateInput t)
      then (Inl ImmutablePriceAfterSale, d)
      else (Inr (apply_input updateInput t),
            d\<lparr>items := map (write_columns (apply_input updateInput t)) (items d)\<rparr>))"
  using assms item_row_Some_ID [OF assms(2)]
  by (simp add: ItemService_Update_def FindById_no_faults Update_no_faults apply_input_ID)

lemma Update_service_reads:
  assumes "item_row rows itemId = Some t"
  shows "item_row (map (write_columns (apply_input updateInput t)) rows) j =
           (if j = itemId then Some (apply_input updateInput t) else item_row rows j)"
proof (cases "j = itemId")
  case True
  have "write_columns (apply_input updateInput t) t = apply_input updateInput t"
    by (simp add: write_columns_def apply_input_fields)
  then show ?thesis
    using assms True by (simp add: item_row_map_write)
next
  case False
  then show ?thesis
    using item_row_Some_ID [OF assms]
    by (simp add: item_row_map_write_other apply_input_ID)
qed

text \<open>
  Claim C5, as the code has it. With the storage answering, for a stored item that is
  unsold (or sold out with an input whose calculated price equals the current price),
  \<open>Update\<close> of the service returns and stores the item with exactly the present fields
  changed: a present name and description as given, a present price \<open>p\<close> as
  \<open>calculatePrice p\<close>; absent fields and all other columns keep their values, and no
  other item and no user changes.
\<close>

theorem Update_partial:
  assumes "faults d = []" and "item_row (items d) itemId = Some t"
    and "Item.SoldOut t \<longrightarrow>
           (case UpdateItemInput.Price updateInput of
              None \<Rightarrow> True | Some p \<Rightarrow> calculatePrice p = Item.Price t)"
  shows
    "case ItemService_Update d itemId updateInput of (res, d') \<Rightarrow>
       res = Inr (t\<lparr>Item.Name := (case UpdateItemInput.Name updateInput of
                                     None \<Rightarrow> Item.Name t | Some n \<Rightarrow> n),
                    Item.Price := (case UpdateItemInput.Price updateInput of
                                     None \<Rightarrow> Item.Price t | Some p \<Rightarrow> calculatePrice p),
                    Item.Description := (case UpdateItemInput.Description updateInput of
                                           None \<Rightarrow> Item.Description t | Some x \<Rightarrow> x)\<rparr>) \<and>
       ItemRepository_FindById d' itemId = (res, d') \<and>
       (\<forall>j. j \<noteq> itemId \<longrightarrow> item_row (items d') j = item_row (items d) j) \<and>
       users d' = users d"
proof -
  have ok: "\<not> (Item.SoldOut t \<and> Item.Price t \<noteq> Item.Price (apply_input updateInput t))"
    using assms(3) by (auto simp: apply_input_fields split: option.splits)
  show ?thesis
    using assms(1,2)
    by (simp add: Update_service_no_faults ok FindById_no_faults Update_service_reads
          apply_input_fields [symmetric])
qed

text \<open>For the item named A with price 100, an update with only the price 150 yields the
  name A and the price 165.\<close>

theorem Update_partial_witness:
  "case ItemService_Update (mk_db [mk_item 1 ''A'' 100 False] [] []) 1
          \<lparr>UpdateItemInput.Name = None, UpdateItemInput.Price = Some 150,
           UpdateItemInput.Description = None, UpdateItemInput.SoldOut = None\<rparr> of
     (res, d') \<Rightarrow>
       res = Inr (mk_item 1 ''A'' 165 False) \<and>
       ItemRepository_FindById d' 1 = (Inr (mk_item 1 ''A'' 165 False), d')"
  using Update_partial [of "mk_db [mk_item 1 ''A'' 100 False] [] []" 1
    "mk_item 1 ''A'' 100 False"
    "\<lparr>UpdateItemInput.Name = None, UpdateItemInput.Price = Some 150,
      UpdateItemInput.Description = None, UpdateItemInput.SoldOut = None\<rparr>"]
  by (simp add: mk_db_def mk_item_def item_row_def calculatePrice_150 split: prod.splits)

text \<open>
  Claim C5 as stated fails in its example: the update with only the price 150 does not
  yield the price 150.
\<close>

theorem Update_price_150_counterexample:
  "fst (ItemService_Update (mk_db [mk_item 1 ''A'' 100 False] [] []) 1
          \<lparr>UpdateItemInput.Name = None, UpdateItemInput.Price = Some 150,
           UpdateItemInput.Description = None, UpdateItemInput.SoldOut = None\<rparr>) =
     Inr (mk_item 1 ''A'' 165 False) \<and>
   mk_item 1 ''A'' 165 False \<noteq> mk_item 1 ''A'' 150 False"
  by (simp add: ItemService_Update_def ItemRepository_FindById_def ItemRepository_Update_def
        BeforeUpdate_def gorm_call_def apply_input_def item_row_def mk_db_def mk_item_def
        calculatePrice_150)

text \<open>
  Claim C6, as the code has it. When the storage answers every call of the update (the
  load of the item, the hook's read of the current row, the write), for a stored item
  that is sold out: an update whose input has a price \<open>p\<close> with \<open>calculatePrice p\<close> different
  from the current price fails with \<open>ImmutablePriceAfterSale\<close> and leaves the database
  unchanged; an update whose input has no price succeeds, returning and storing the item
  with the present name and description.
\<close>

theorem Update_sold_out:
  assumes "faults d = []" and "item_row (items d) itemId = Some t" and "Item.SoldOut t"
  shows
    "(\<forall>p. UpdateItemInput.Price updateInput = Some p \<and> calculatePrice p \<noteq> Item.Price t \<longrightarrow>
        ItemService_Update d itemId updateInput = (Inl ImmutablePriceAfterSale, d)) \<and>
     (UpdateItemInput.Price updateInput = None \<longrightarrow>
        (case ItemService_Update d itemId updateInput of (res, d') \<Rightarrow>
           res = Inr (t\<lparr>Item.Name := (case UpdateItemInput.Name updateInput of
                                         None \<Rightarrow> Item.Name t | Some n \<Rightarrow> n),
                        Item.Description := (case UpdateItemInput.Description updateInput of
                                               None \<Rightarrow> Item.Description t | Some x \<Rightarrow> x)\<rparr>) \<and>
           ItemRepository_FindById d' itemId = (res, d')))"
proof (intro conjI allI impI)
  fix p
  assume "UpdateItemInput.Price updateInput = Some p \<and> calculatePrice p \<noteq> Item.Price t"
  then have "Item.Price t \<noteq> Item.Price (apply_input updateInput t)"
    by (auto simp: apply_input_fields)
  then show "ItemService_Update d itemId updateInput = (Inl ImmutablePriceAfterSale, d)"
    using assms by (simp add: Update_service_no_faults)
next
  assume n: "UpdateItemInput.Price updateInput = None"
  then have e: "apply_input updateInput t =
      t\<lparr>Item.Name := (case UpdateItemInput.Name updateInput of
                         None \<Rightarrow> Item.Name t | Some n \<Rightarrow> n),
        Item.Description := (case UpdateItemInput.Description updateInput of
                               None \<Rightarrow> Item.Description t | Some x \<Rightarrow> x)\<rparr>"
    by (simp add: apply_input_fields)
  have "Item.Price (apply_input updateInput t) = Item.Price t"
    using n by (simp add: apply_input_fields)
  then have "ItemService_Update d itemId updateInput =
      (Inr (apply_input updateInput t),
       d\<lparr>items := map (write_columns (apply_input updateInput t)) (items d)\<rparr>)"
    using assms by (simp add: Update_service_no_faults)
  then have "case ItemService_Update d itemId updateInput of (res, d') \<Rightarrow>
      res = Inr (apply_input updateInput t) \<and> ItemRepository_FindById d' itemId = (res, d')"
    using assms(1,2) by (simp add: FindById_no_faults Update_service_reads)
  then show "case ItemService_Update d itemId updateInput of (res, d') \<Rightarrow>
           res = Inr (t\<lparr>Item.Name := (case UpdateItemInput.Name updateInput of
                                         None \<Rightarrow> Item.Name t | Some n \<Rightarrow> n),
                        Item.Description := (case UpdateItemInput.Description updateInput of
                                               None \<Rightarrow> Item.Description t | Some x \<Rightarrow> x)\<rparr>) \<and>
           ItemRepository_FindById d' itemId = (res, d')"
    by (simp only: e)
qed

text \<open>A sold-out item with price 100: the update to price 200 is rejected, the update of
  the description to x succeeds.\<close>

theorem Update_sold_out_witness:
  "ItemService_Update (mk_db [mk_item 1 ''A'' 100 True] [] []) 1
      \<lparr>UpdateItemInput.Name = None, UpdateItemInput.Price = Some 200,
       UpdateItemInput.Description = None, UpdateItemInput.SoldOut = None\<rparr> =
     (Inl ImmutablePriceAfterSale, mk_db [mk_item 1 ''A'' 100 True] [] []) \<and>
   fst (ItemService_Update (mk_db [mk_item 1 ''A'' 100 True] [] []) 1
      \<lparr>UpdateItemInput.Name = None, UpdateItemInput.Price = None,
       UpdateItemInput.Description = Some ''x'', UpdateItemInput.SoldOut = None\<rparr>) =
     Inr ((mk_item 1 ''A'' 100 True)\<lparr>Item.Description := ''x''\<rparr>)"
  using
    Update_sold_out [of "mk_db [mk_item 1 ''A'' 100 True] [] []" 1 "mk_item 1 ''A'' 100 True"
      "\<lparr>UpdateItemInput.Name = None, UpdateItemInput.Price = Some 200,
        UpdateItemInput.Description = None, UpdateItemInput.SoldOut = None\<rparr>"]
    Update_sold_out [of "mk_db [mk_item 1 ''A'' 100 True] [] []" 1 "mk_item 1 ''A'' 100 True"
      "\<lparr>UpdateItemInput.Name = None, UpdateItemInput.Price = None,
        UpdateItemInput.Description = Some ''x'', UpdateItemInput.SoldOut = None\<rparr>"]
  by (simp add: mk_db_def mk_item_def item_row_def calculatePrice_200 split: prod.splits)

text \<open>
  Claim C6 as stated fails: for a sold-out item with price 110, the update whose input
  sets the price 100, a different value, succeeds (the calculated price of 100 is 110).
\<close>

theorem Update_sold_out_price_110_counterexample:
  "ItemService_Update (mk_db [mk_item 1 ''A'' 110 True] [] []) 1
      \<lparr>UpdateItemInput.Name = None, UpdateItemInput.Price = Some 100,
       UpdateItemInput.Description = None, UpdateItemInput.SoldOut = None\<rparr> =
     (Inr (mk_item 1 ''A'' 110 True), mk_db [mk_item 1 ''A'' 110 True] [] []) \<and>
   (100 :: uint) \<noteq> 110"
  by (simp add: ItemService_Update_def ItemRepository_FindById_def ItemRepository_Update_def
        BeforeUpdate_def gorm_call_def apply_input_def item_row_def mk_db_def mk_item_def
        write_columns_def calculatePrice_100)

text \<open>The hook drops the error of its read: when that call fails, the old item it compares
  with is Go's zero value, and the update of a sold-out item priced 100 to the input price
  200 goes through, storing 220.\<close>

lemma Update_sold_out_hook_read_fails:
  "ItemService_Update (mk_db [mk_item 1 ''A'' 100 True] [] [False, True, False]) 1
      \<lparr>UpdateItemInput.Name = None, UpdateItemInput.Price = Some 200,
       UpdateItemInput.Description = None, UpdateItemInput.SoldOut = None\<rparr> =
     (Inr (mk_item 1 ''A'' 220 True), mk_db [mk_item 1 ''A'' 220 True] [] [])"
  by (simp add: ItemService_Update_def ItemRepository_FindById_def ItemRepository_Update_def
        BeforeUpdate_def gorm_call_def apply_input_def item_row_def mk_db_def mk_item_def
        write_columns_def zero_Item_def calculatePrice_200)

section \<open>Effects on the item table under any failures\<close>

lemma gorm_call_items: "gorm_call d = (b, d1) \<Longrightarrow> items d1 = items d"
  by (simp add: gorm_call_tables)

lemma FindById_effect:
  assumes "ItemRepository_FindById d j = (res, d1)"
  shows "items d1 = items d" and "res = Inr t \<Longrightarrow> item_row (items d) j = Some t"
proof -
  obtain b d0 where g: "gorm_call d = (b, d0)" by (cases "gorm_call d")
  have i: "items d0 = items d" using g by (rule gorm_call_items)
  show "items d1 = items d"
    using assms g i
    by (auto simp: ItemRepository_FindById_def split: bool.splits option.splits if_splits)
  show "res = Inr t \<Longrightarrow> item_row (items d) j = Some t"
    using assms g i
    by (auto simp: ItemRepository_FindById_def split: bool.splits option.splits if_splits)
qed

lemma User_FindById_items:
  assumes "UserRepository_FindById d k = (res, d1)"
  shows "items d1 = items d"
proof -
  obtain b d0 where g: "gorm_call d = (b, d0)" by (cases "gorm_call d")
  have "items d0 = items d" using g by (rule gorm_call_items)
  then show ?thesis
    using assms g
    by (auto simp: UserRepository_FindById_def split: bool.splits option.splits if_splits)
qed

lemma User_Update_items:
  assumes "UserRepository_Update d u = (res, d1)"
  shows "items d1 = items d"
proof -
  obtain b d0 where g: "gorm_call d = (b, d0)" by (cases "gorm_call d")
  have "items d0 = items d" using g by (rule gorm_call_items)
  then show ?thesis
    using assms g
    by (auto simp: UserRepository_Update_def split: bool.splits option.splits if_splits)
qed

lemma BeforeUpdate_items:
  assumes "BeforeUpdate d x = (res, d1)"
  shows "items d1 = items d"
proof -
  obtain b d0 where g: "gorm_call d = (b, d0)" by (cases "gorm_call d")
  have "items d0 = items d" using g by (rule gorm_call_items)
  then show ?thesis
    using assms g by (auto simp: BeforeUpdate_def Let_def split: if_splits)
qed

lemma Update_items:
  assumes "ItemRepository_Update d x = (res, d1)"
  shows "items d1 = items d \<or> items d1 = map (write_columns x) (items d)"
proof -
  obtain r0 d0 where h: "BeforeUpdate d x = (r0, d0)" by (cases "BeforeUpdate d x")
  have i0: "items d0 = items d" using h by (rule BeforeUpdate_items)
  obtain b d2 where g: "gorm_call d0 = (b, d2)" by (cases "gorm_call d0")
  have i2: "items d2 = items d" using g i0 by (simp add: gorm_call_items)
  show ?thesis
    using assms h g i0 i2
    by (auto simp: ItemRepository_Update_def split: sum.splits bool.splits option.splits if_splits)
qed

lemma Create_items:
  assumes "ItemRepository_Create d x = (res, d1)"
  shows "items d1 = items d \<or> (\<exists>s. items d1 = items d @ [s])"
proof -
  obtain b d0 where g: "gorm_call d = (b, d0)" by (cases "gorm_call d")
  have "items d0 = items d" using g by (rule gorm_call_items)
  then show ?thesis
    using assms g
    by (auto simp: ItemRepository_Create_def Let_def split: bool.splits option.splits if_splits)
qed

lemma sold_after_write:
  assumes "item_row rows j = Some r" and "Item.SoldOut r"
    and "item_row rows (Item.ID x) = Some r \<longrightarrow> Item.SoldOut x"
  shows "\<exists>r'. item_row (map (write_columns x) rows) j = Some r' \<and> Item.SoldOut r'"
  using assms item_row_Some_ID [OF assms(1)]
  by (auto simp: item_row_map_write write_columns_def)


lemma SoldOut_after_write:
  assumes "item_row rows itemId = Some t" and "Item.ID x = itemId"
    and "Item.SoldOut x = Item.SoldOut t"
  shows "map_option Item.SoldOut (item_row (map (write_columns x) rows) j) =
         map_option Item.SoldOut (item_row rows j)"
proof (cases "item_row rows j")
  case None
  then show ?thesis by (simp add: item_row_map_write)
next
  case (Some r)
  have "Item.SoldOut (write_columns x r) = Item.SoldOut r"
  proof (cases "Item.ID r = Item.ID x")
    case True
    then have "j = itemId" using item_row_Some_ID [OF Some] assms(2) by simp
    then have "r = t" using Some assms(1) by simp
    then show ?thesis using assms(3) by (simp add: write_columns_def)
  next
    case False
    then show ?thesis by (simp add: write_columns_def)
  qed
  then show ?thesis using Some by (simp add: item_row_map_write)
qed

lemma ItemService_Update_SoldOut:
  "map_option Item.SoldOut (item_row (items (snd (ItemService_Update d itemId updateInput))) j) =
   map_option Item.SoldOut (item_row (items d) j)"
proof -
  obtain r1 d1 where f: "ItemRepository_FindById d itemId = (r1, d1)"
    by (cases "ItemRepository_FindById d itemId")
  have i1: "items d1 = items d" using f by (rule FindById_effect(1))
  show ?thesis
  proof (cases r1)
    case (Inl e)
    then show ?thesis using f i1 by (simp add: ItemService_Update_def)
  next
    case (Inr t)
    have t: "item_row (items d) itemId = Some t"
      using f Inr by (rule FindById_effect(2))
    define x where "x = apply_input updateInput t"
    have x: "Item.ID x = itemId" "Item.SoldOut x = Item.SoldOut t"
      using item_row_Some_ID [OF t] by (simp_all add: x_def apply_input_ID apply_input_SoldOut)
    obtain r2 d2 where u: "ItemRepository_Update d1 x = (r2, d2)"
      by (cases "ItemRepository_Update d1 x")
    have s: "snd (ItemService_Update d itemId updateInput) = d2"
      using f Inr u by (simp add: ItemService_Update_def x_def)
    from Update_items [OF u] show ?thesis
    proof
      assume "items d2 = items d1"
      then show ?thesis using s i1 by simp
    next
      assume "items d2 = map (write_columns x) (items d1)"
      then show ?thesis
        using s i1 SoldOut_after_write [OF t x] by simp
    qed
  qed
qed

lemma PurchaseItem_items:
  assumes "PurchaseItem d itemId userId = (res, d')"
  shows "items d' = items d \<or>
         (\<exists>i. item_row (items d) itemId = Some i \<and>
              items d' = map (write_columns (i\<lparr>Item.SoldOut := True\<rparr>)) (items d))"
proof -
  obtain r1 d1 where f: "ItemRepository_FindById d itemId = (r1, d1)"
    by (cases "ItemRepository_FindById d itemId")
  have i1: "items d1 = items d" using f by (rule FindById_effect(1))
  show ?thesis
  proof (cases r1)
    case (Inl e)
    then show ?thesis using assms f i1 by (auto simp: PurchaseItem_def)
  next
    case (Inr i)
    have t: "item_row (items d) itemId = Some i"
      using f Inr by (rule FindById_effect(2))
    show ?thesis
    proof (cases "Item.SoldOut i")
      case True
      then show ?thesis using assms f Inr i1 by (auto simp: PurchaseItem_def)
    next
      case unsold: False
      obtain r2 d2 where g: "UserRepository_FindById d1 userId = (r2, d2)"
        by (cases "UserRepository_FindById d1 userId")
      have i2: "items d2 = items d" using g i1 by (simp add: User_FindById_items)
      show ?thesis
      proof (cases r2)
        case (Inl e)
        then show ?thesis using assms f Inr unsold g i2 by (auto simp: PurchaseItem_def)
      next
        case user: (Inr u)
        show ?thesis
        proof (cases "Balance u < Item.Price i")
          case True
          then show ?thesis
            using assms f Inr unsold g user i2 by (auto simp: PurchaseItem_def)
        next
          case enough: False
          obtain r3 d3 where w: "ItemRepository_Update d2 (i\<lparr>Item.SoldOut := True\<rparr>) = (r3, d3)"
            by (cases "ItemRepository_Update d2 (i\<lparr>Item.SoldOut := True\<rparr>)")
          have i3: "items d3 = items d \<or>
              items d3 = map (write_columns (i\<lparr>Item.SoldOut := True\<rparr>)) (items d)"
            using Update_items [OF w] i2 by simp
          show ?thesis
          proof (cases r3)
            case (Inl e)
            then show ?thesis
              using assms f Inr unsold g user enough w i3 t by (auto simp: PurchaseItem_def)
          next
            case (Inr y)
            obtain r4 d4 where v: "UserRepository_Update d3
                (u\<lparr>Balance := Balance u - Item.Price i\<rparr>) = (r4, d4)"
              by (cases "UserRepository_Update d3 (u\<lparr>Balance := Balance u - Item.Price i\<rparr>)")
            have i4: "items d4 = items d3" using v by (rule User_Update_items)
            have "d' = d4"
              using assms f \<open>r1 = Inr i\<close> unsold g user enough w Inr v
              by (auto simp: PurchaseItem_def split: sum.splits)
            then show ?thesis using i3 i4 t by auto
          qed
        qed
      qed
    qed
  qed
qed

section \<open>Monotonicity of the sold-out flag\<close>

lemma item_sold_iff:
  "item_sold d j \<longleftrightarrow> map_option Item.SoldOut (item_row (items d) j) = Some True"
  by (auto simp: item_sold_def split: option.splits)

lemma item_sold_append:
  "item_sold d j \<Longrightarrow> items d' = items d @ [s] \<Longrightarrow> item_sold d' j"
  by (auto simp: item_sold_def item_row_append split: option.splits)

lemma item_sold_same: "item_sold d j \<Longrightarrow> items d' = items d \<Longrightarrow> item_sold d' j"
  by (simp add: item_sold_def)

lemma run_op_sold:
  assumes "item_sold d j"
  shows "item_sold (run_op d x) j"
proof (cases x)
  case (OpCreate c)
  obtain res d' where r: "ItemService_Create d c = (res, d')"
    by (cases "ItemService_Create d c")
  then have "items d' = items d \<or> (\<exists>s. items d' = items d @ [s])"
    by (auto simp: ItemService_Create_def Let_def dest: Create_items)
  then show ?thesis
    using assms r OpCreate by (auto intro: item_sold_append item_sold_same)
next
  case (OpUpdate itemId u)
  then show ?thesis
    using assms ItemService_Update_SoldOut [of d itemId u j] by (simp add: item_sold_iff)
next
  case (OpPurchase itemId userId)
  obtain res d' where r: "PurchaseItem d itemId userId = (res, d')"
    by (cases "PurchaseItem d itemId userId")
  from PurchaseItem_items [OF r] show ?thesis
  proof
    assume "items d' = items d"
    then show ?thesis using assms r OpPurchase by (auto intro: item_sold_same)
  next
    assume "\<exists>i. item_row (items d) itemId = Some i \<and>
              items d' = map (write_columns (i\<lparr>Item.SoldOut := True\<rparr>)) (items d)"
    then obtain i where i: "item_row (items d) itemId = Some i"
      and w: "items d' = map (write_columns (i\<lparr>Item.SoldOut := True\<rparr>)) (items d)"
      by blast
    obtain r0 where r0: "item_row (items d) j = Some r0" "Item.SoldOut r0"
      using assms by (auto simp: item_sold_def split: option.splits)
    have "\<exists>r'. item_row (map (write_columns (i\<lparr>Item.SoldOut := True\<rparr>)) (items d)) j = Some r'
            \<and> Item.SoldOut r'"
      using r0 by (intro sold_after_write) simp_all
    then show ?thesis
      using r OpPurchase w by (auto simp: item_sold_def)
  qed
qed

text \<open>
  Claim C9. Over every sequence of the core operations (create, update, purchase), run
  one after the other from any database and under any pattern of storage failures, an
  item that is sold out stays sold out: \<open>SoldOut\<close> is never written back to false.
\<close>

theorem SoldOut_never_reverted:
  "item_sold d j \<Longrightarrow> item_sold (run_ops d ops) j"
  by (induction ops arbitrary: d) (simp_all add: run_op_sold)

text \<open>
  Claim C10. \<open>Update\<close> of the service never changes \<open>SoldOut\<close>: for every database,
  item id and input (also one whose \<open>SoldOut\<close> pointer is set, and whether or not the
  storage fails), each stored item has after the update the \<open>SoldOut\<close> it had before.
\<close>

theorem Update_keeps_SoldOut:
  "map_option Item.SoldOut
     (item_row (items (snd (ItemService_Update d itemId updateInput))) j) =
   map_option Item.SoldOut (item_row (items d) j)"
  by (rule ItemService_Update_SoldOut)


text \<open>Item 1 is bought; an update that asks for \<open>SoldOut\<close> false, a creation and a second
  purchase follow, and item 1 is still sold out.\<close>

theorem SoldOut_never_reverted_witness:
  "item_sold (run_ops (mk_db [mk_item 1 ''A'' 100 False] [mk_user 1 500] []) [OpPurchase 1 1]) 1 \<and>
   item_sold
     (run_ops (run_ops (mk_db [mk_item 1 ''A'' 100 False] [mk_user 1 500] []) [OpPurchase 1 1])
        [OpUpdate 1 \<lparr>UpdateItemInput.Name = Some ''B'', UpdateItemInput.Price = None,
                     UpdateItemInput.Description = None, UpdateItemInput.SoldOut = Some False\<rparr>,
         OpCreate \<lparr>CreateItemInput.Name = ''ab'', CreateItemInput.Price = 200,
                   CreateItemInput.Description = ''c''\<rparr>,
         OpPurchase 1 1]) 1"
proof -
  have h: "item_sold
      (run_ops (mk_db [mk_item 1 ''A'' 100 False] [mk_user 1 500] []) [OpPurchase 1 1]) 1"
    by (simp add: PurchaseItem_no_faults item_sold_def mk_db_def mk_item_def mk_user_def
          item_row_def user_row_def write_columns_def)
  from h SoldOut_never_reverted [OF h] show ?thesis
    by (rule conjI)
qed

text \<open>A sold-out item updated with a new name and \<open>SoldOut\<close> false in the input is
  still sold out.\<close>

theorem Update_keeps_SoldOut_witness:
  "map_option Item.SoldOut
     (item_row (items (snd (ItemService_Update (mk_db [mk_item 1 ''A'' 100 True] [] []) 1
        \<lparr>UpdateItemInput.Name = Some ''B'', UpdateItemInput.Price = None,
         UpdateItemInput.Description = None, UpdateItemInput.SoldOut = Some False\<rparr>))) 1) =
   Some True"
  using Update_keeps_SoldOut [of "mk_db [mk_item 1 ''A'' 100 True] [] []" 1
        "\<lparr>UpdateItemInput.Name = Some ''B'', UpdateItemInput.Price = None,
          UpdateItemInput.Description = None, UpdateItemInput.SoldOut = Some False\<rparr>" 1]
  by (simp add: mk_db_def mk_item_def item_row_def)

section \<open>Overlapping purchases of one item\<close>

text \<open>Run alone, the four steps of a call are \<open>PurchaseItem\<close>: same result, same
  database.\<close>

lemma purchase_alone:
  "run_schedule d [purchase_start itemId userId] [0, 0, 0, 0] =
     (snd (PurchaseItem d itemId userId),
      [\<lparr>call_itemId = itemId, call_userId = userId,
        call_pc = Done (fst (PurchaseItem d itemId userId))\<rparr>])"
proof -
  note defs = purchase_start_def purchase_step_def PurchaseItem_def
  obtain r1 d1 where f: "ItemRepository_FindById d itemId = (r1, d1)"
    by (cases "ItemRepository_FindById d itemId")
  show ?thesis
  proof (cases r1)
    case (Inl e)
    then show ?thesis using f by (simp add: defs)
  next
    case item: (Inr i)
    show ?thesis
    proof (cases "Item.SoldOut i")
      case True
      then show ?thesis using f item by (simp add: defs)
    next
      case unsold: False
      obtain r2 d2 where g: "UserRepository_FindById d1 userId = (r2, d2)"
        by (cases "UserRepository_FindById d1 userId")
      show ?thesis
      proof (cases r2)
        case (Inl e)
        then show ?thesis using f item unsold g by (simp add: defs)
      next
        case user: (Inr u)
        show ?thesis
        proof (cases "Balance u < Item.Price i")
          case True
          then show ?thesis using f item unsold g user by (simp add: defs)
        next
          case enough: False
          obtain r3 d3 where w: "ItemRepository_Update d2 (i\<lparr>Item.SoldOut := True\<rparr>) = (r3, d3)"
            by (cases "ItemRepository_Update d2 (i\<lparr>Item.SoldOut := True\<rparr>)")
          show ?thesis
          proof (cases r3)
            case (Inl e)
            then show ?thesis using f item unsold g user enough w by (simp add: defs)
          next
            case written: (Inr y)
            obtain r4 d4 where v: "UserRepository_Update d3
                (u\<lparr>Balance := Balance u - Item.Price i\<rparr>) = (r4, d4)"
              by (cases "UserRepository_Update d3 (u\<lparr>Balance := Balance u - Item.Price i\<rparr>)")
            show ?thesis
              using f item unsold g user enough w written v
              by (cases r4) (simp_all add: defs)
          qed
        qed
      qed
    qed
  qed
qed

text \<open>
  Claim C8. Two calls of \<open>PurchaseItem\<close> on the same unsold item 1 of price 500, by
  buyer 1 (balance 500) and buyer 2 (balance 900), taking turns after each repository
  call: both load the item before either writes it, so both pass the sold-out check, both
  updates of the item succeed, and both calls return success. The item is purchased twice
  and both buyers are debited; no call fails with \<open>AlreadySoldOut\<close>.
\<close>

theorem two_purchases_both_succeed:
  "run_schedule (mk_db [mk_item 1 ''A'' 500 False] [mk_user 1 500, mk_user 2 900] [])
      [purchase_start 1 1, purchase_start 1 2] [0, 1, 0, 1, 0, 1, 0, 1] =
     (mk_db [mk_item 1 ''A'' 500 True] [mk_user 1 0, mk_user 2 400] [],
      [\<lparr>call_itemId = 1, call_userId = 1, call_pc = Done (Inr ())\<rparr>,
       \<lparr>call_itemId = 1, call_userId = 2, call_pc = Done (Inr ())\<rparr>])"
  by (simp add: purchase_start_def purchase_step_def
        ItemRepository_FindById_def UserRepository_FindById_def
        ItemRepository_Update_def BeforeUpdate_def UserRepository_Update_def gorm_call_def
        item_row_def user_row_def write_columns_def mk_db_def mk_item_def mk_user_def)

end
